theory Spec2Isabelle
  imports Complex_Main "HOL-Library.Multiset"
begin

section \<open>JSON values and the Python operations the handlers apply to them\<close>

text \<open>
  A parsed JSON document, as \<^verbatim>\<open>response.json()\<close> and \<^verbatim>\<open>request.json()\<close> return it:
  \<^verbatim>\<open>None\<close>, a bool, an int, a float, a str, a list or a dict. A dict is the list of its
  items in insertion order (its keys are distinct); a finite float is kept by its value.
\<close>

datatype json =
    JNull
  | JBool bool
  | JInt int
  | JFloat rat
  | JStr string
  | JArr "json list"
  | JObj "(string \<times> json) list"

text \<open>
  The exceptions of the two programs. \<open>Exception msg\<close> is the source's own
  \<^verbatim>\<open>raise Exception(msg)\<close>; the others are raised by Python and the libraries:
  a missing key, an operation on a value of the wrong type, a missing method, a local
  variable read before any assignment, a failed transport, a body that is not JSON.
\<close>

datatype error =
    Exception string
  | KeyError string
  | TypeError
  | AttributeError
  | UnboundLocalError string
  | RequestException
  | JSONDecodeError

definition bind_e :: "error + 'a \<Rightarrow> ('a \<Rightarrow> error + 'b) \<Rightarrow> error + 'b" where
  "bind_e m f = (case m of Inl e \<Rightarrow> Inl e | Inr v \<Rightarrow> f v)"

text \<open>A comprehension \<^verbatim>\<open>[f(v) for v in vs]\<close>: the first element that raises ends it.\<close>

fun map_e :: "('a \<Rightarrow> error + 'b) \<Rightarrow> 'a list \<Rightarrow> error + 'b list" where
  "map_e f [] = Inr []"
| "map_e f (v # vs) =
     (case f v of
        Inl e \<Rightarrow> Inl e
      | Inr w \<Rightarrow> (case map_e f vs of Inl e \<Rightarrow> Inl e | Inr ws \<Rightarrow> Inr (w # ws)))"

text \<open>\<^verbatim>\<open>obj[key]\<close> with a str key: only a dict can be subscripted by a str.\<close>

fun py_getitem :: "json \<Rightarrow> string \<Rightarrow> error + json" where
  "py_getitem (JObj kvs) k = (case map_of kvs k of None \<Rightarrow> Inl (KeyError k) | Some v \<Rightarrow> Inr v)"
| "py_getitem _ k = Inl TypeError"

text \<open>\<^verbatim>\<open>obj.get(key, default)\<close>: only a dict has the method.\<close>

fun py_get :: "json \<Rightarrow> string \<Rightarrow> json \<Rightarrow> error + json" where
  "py_get (JObj kvs) k d = Inr (case map_of kvs k of None \<Rightarrow> d | Some v \<Rightarrow> v)"
| "py_get _ k d = Inl AttributeError"

text \<open>The truth value \<^verbatim>\<open>if v:\<close> tests.\<close>

fun truthy :: "json \<Rightarrow> bool" where
  "truthy JNull = False"
| "truthy (JBool b) = b"
| "truthy (JInt i) = (i \<noteq> 0)"
| "truthy (JFloat r) = (r \<noteq> 0)"
| "truthy (JStr s) = (s \<noteq> [])"
| "truthy (JArr vs) = (vs \<noteq> [])"
| "truthy (JObj kvs) = (kvs \<noteq> [])"

text \<open>
  \<^verbatim>\<open>for v in obj\<close>: a list gives its elements, a dict its keys, a str its characters;
  nothing else is iterable.
\<close>

fun py_iter :: "json \<Rightarrow> error + json list" where
  "py_iter (JArr vs) = Inr vs"
| "py_iter (JObj kvs) = Inr (map (\<lambda>kv. JStr (fst kv)) kvs)"
| "py_iter (JStr s) = Inr (map (\<lambda>c. JStr [c]) s)"
| "py_iter _ = Inl TypeError"

fun is_prefix :: "string \<Rightarrow> string \<Rightarrow> bool" where
  "is_prefix [] t = True"
| "is_prefix (c # s) [] = False"
| "is_prefix (c # s) (d # t) = (c = d \<and> is_prefix s t)"

fun is_substring :: "string \<Rightarrow> string \<Rightarrow> bool" where
  "is_substring s [] = (s = [])"
| "is_substring s (d # t) = (is_prefix s (d # t) \<or> is_substring s t)"

text \<open>
  \<^verbatim>\<open>key in obj\<close> with a str key: a key of a dict, an element of a list, a substring of a
  str; a TypeError on anything else.
\<close>

fun py_contains :: "string \<Rightarrow> json \<Rightarrow> error + bool" where
  "py_contains k (JObj kvs) = Inr (k \<in> set (map fst kvs))"
| "py_contains k (JArr vs) = Inr (JStr k \<in> set vs)"
| "py_contains k (JStr s) = Inr (is_substring k s)"
| "py_contains k _ = Inl TypeError"

text \<open>
  What a set or a dict sees of a value: \<^verbatim>\<open>1 == 1.0 == True\<close> are one key, a list and a
  dict are unhashable.
\<close>

datatype pykey = KNone | KNum rat | KStr string

fun hash_key :: "json \<Rightarrow> pykey option" where
  "hash_key JNull = Some KNone"
| "hash_key (JBool b) = Some (KNum (if b then 1 else 0))"
| "hash_key (JInt i) = Some (KNum (of_int i))"
| "hash_key (JFloat r) = Some (KNum r)"
| "hash_key (JStr s) = Some (KStr s)"
| "hash_key (JArr vs) = None"
| "hash_key (JObj kvs) = None"

text \<open>\<^verbatim>\<open>a == b\<close> on hashable values.\<close>

definition py_eq :: "json \<Rightarrow> json \<Rightarrow> bool" where
  "py_eq a b = (case (hash_key a, hash_key b) of (Some k, Some l) \<Rightarrow> k = l | _ \<Rightarrow> False)"

text \<open>Inserting into a set keeps the element that is already there.\<close>

fun dedup :: "json list \<Rightarrow> json list \<Rightarrow> json list" where
  "dedup seen [] = seen"
| "dedup seen (v # vs) =
     (if hash_key v \<in> set (map hash_key seen) then dedup seen vs else dedup (seen @ [v]) vs)"

text \<open>
  \<^verbatim>\<open>set(vs)\<close> followed by iteration. Building the set raises on an unhashable element.
  The order in which a set is iterated is not a function of its elements: it follows the
  hashes, and the hash of a str is salted per process. \<open>set_order\<close> is that order, a
  parameter of the model: it is handed the distinct elements in insertion order.
\<close>

definition py_set_iter :: "(json list \<Rightarrow> json list) \<Rightarrow> json list \<Rightarrow> error + json list" where
  "py_set_iter set_order vs =
     (if None \<in> set (map hash_key vs) then Inl TypeError else Inr (set_order (dedup [] vs)))"

text \<open>A set order rearranges and neither drops nor repeats.\<close>

definition valid_order :: "(json list \<Rightarrow> json list) \<Rightarrow> bool" where
  "valid_order set_order = (\<forall>vs. mset (set_order vs) = mset vs)"

section \<open>Chart specifications\<close>

text \<open>
  A plotly figure as the handler builds it: the traces in the order added, and the layout
  fields the handler sets. The constructors record their arguments as passed.
\<close>

datatype trace_type = Scatter | Bar

record trace =
  tr_type :: trace_type
  tr_x :: "json list"
  tr_y :: "json list"
  tr_mode :: "string option"
  tr_name :: "json option"
  tr_marker_color :: "string option"

record figure =
  fig_data :: "trace list"
  layout_title :: "string option"
  layout_xaxis_title :: "string option"
  layout_yaxis_title :: "string option"
  layout_yaxis_type :: "string option"

definition go_Figure :: figure where
  "go_Figure = \<lparr>fig_data = [], layout_title = None, layout_xaxis_title = None,
     layout_yaxis_title = None, layout_yaxis_type = None\<rparr>"

definition go_Scatter :: "json list \<Rightarrow> json list \<Rightarrow> string \<Rightarrow> json \<Rightarrow> string option \<Rightarrow> trace" where
  "go_Scatter xs ys m n c =
     \<lparr>tr_type = Scatter, tr_x = xs, tr_y = ys, tr_mode = Some m, tr_name = Some n,
      tr_marker_color = c\<rparr>"

definition go_Bar :: "json list \<Rightarrow> json list \<Rightarrow> string \<Rightarrow> trace" where
  "go_Bar xs ys c =
     \<lparr>tr_type = Bar, tr_x = xs, tr_y = ys, tr_mode = None, tr_name = None,
      tr_marker_color = Some c\<rparr>"

definition add_trace :: "figure \<Rightarrow> trace \<Rightarrow> figure" where
  "add_trace f t = f\<lparr>fig_data := fig_data f @ [t]\<rparr>"

text \<open>\<^verbatim>\<open>fig.update_layout(title=..., xaxis_title=..., yaxis_title=...)\<close>.\<close>

definition update_layout :: "figure \<Rightarrow> string \<Rightarrow> string \<Rightarrow> string \<Rightarrow> figure" where
  "update_layout f t xt yt =
     f\<lparr>layout_title := Some t, layout_xaxis_title := Some xt, layout_yaxis_title := Some yt\<rparr>"

text \<open>\<^verbatim>\<open>fig.update_layout(title=...)\<close>.\<close>

definition update_title :: "figure \<Rightarrow> string \<Rightarrow> figure" where
  "update_title f t = f\<lparr>layout_title := Some t\<rparr>"

text \<open>\<^verbatim>\<open>fig.update_layout(yaxis=dict(type=...))\<close>, the extra keyword of the sleep chart.\<close>

definition update_yaxis_type :: "figure \<Rightarrow> string \<Rightarrow> figure" where
  "update_yaxis_type f ty = f\<lparr>layout_yaxis_type := Some ty\<rparr>"

text \<open>
  Reading a local variable. \<open>None\<close> is a name no statement has assigned yet on the path
  taken: Python raises UnboundLocalError.
\<close>

definition read_local :: "string \<Rightarrow> 'a option \<Rightarrow> error + 'a" where
  "read_local nm v = (case v of None \<Rightarrow> Inl (UnboundLocalError nm) | Some a \<Rightarrow> Inr a)"

section \<open>The external API\<close>

record response =
  status_code :: int
  body :: "json option"

text \<open>\<^verbatim>\<open>response.json()\<close>: a body that is not JSON raises.\<close>

definition response_json :: "response \<Rightarrow> error + json" where
  "response_json r = (case body r of None \<Rightarrow> Inl JSONDecodeError | Some j \<Rightarrow> Inr j)"

type_synonym headers = "(string \<times> string) list"
type_synonym request = "string \<times> headers"

text \<open>
  The external state: what \<^verbatim>\<open>requests.get(url, headers=headers)\<close> gives, a response or
  an exception of the transport.
\<close>

type_synonym api = "string \<Rightarrow> headers \<Rightarrow> error + response"

section \<open>The dashboard's fetch-and-transform pipeline (app.py)\<close>

subsection \<open>Heart rate\<close>

text \<open>
  Lines 88 to 105, from the status check on. \<^verbatim>\<open>fig_hr\<close> is assigned in the branch of a
  non-empty series only; the other branch reads it.
\<close>

definition heart_fig :: "string \<Rightarrow> response \<Rightarrow> error + figure" where
  "heart_fig selected_date response_hr =
     (if status_code response_hr \<noteq> 200 then Inl (Exception ''Heart rate request failed'')
      else
        bind_e (response_json response_hr) (\<lambda>hr_data.
        bind_e (py_getitem hr_data ''activities-heart-intraday'') (\<lambda>intraday.
        bind_e (py_getitem intraday ''dataset'') (\<lambda>hr_series.
        if truthy hr_series then
          bind_e (py_iter hr_series) (\<lambda>dps.
          bind_e (map_e (\<lambda>dp. py_getitem dp ''time'') dps) (\<lambda>x_hr.
          bind_e (map_e (\<lambda>dp. py_getitem dp ''value'') dps) (\<lambda>y_hr.
          Inr (update_layout
                 (add_trace go_Figure (go_Scatter x_hr y_hr ''lines'' (JStr ''Heart Rate'') None))
                 (''Heart Rate on '' @ selected_date) ''Time'' ''BPM''))))
        else
          bind_e (read_local ''fig_hr'' None) (\<lambda>fig_hr.
          Inr (update_title fig_hr ''No Heart Rate Data Available''))))))"

subsection \<open>Steps, weight and blood oxygen\<close>

text \<open>
  \<^verbatim>\<open>data[key]["dataset"] if key in data else []\<close> (lines 113, 208, 227): the
  condition is evaluated first.
\<close>

definition intraday_series :: "json \<Rightarrow> string \<Rightarrow> error + json" where
  "intraday_series data key =
     bind_e (py_contains key data) (\<lambda>present.
     if present then bind_e (py_getitem data key) (\<lambda>intraday. py_getitem intraday ''dataset'')
     else Inr (JArr []))"

text \<open>
  The chart of the three metrics (lines 115 to 124, 210 to 219, 236 to 245): the figure is
  created before the test, and created again in the branch of a non-empty series.
\<close>

definition line_fig :: "json \<Rightarrow> string \<Rightarrow> string \<Rightarrow> string \<Rightarrow> string \<Rightarrow> error + figure" where
  "line_fig series nm title ytitle nodata =
     (let fig = go_Figure in
      if truthy series then
        bind_e (py_iter series) (\<lambda>dps.
        bind_e (map_e (\<lambda>dp. py_getitem dp ''time'') dps) (\<lambda>xs.
        bind_e (map_e (\<lambda>dp. py_getitem dp ''value'') dps) (\<lambda>ys.
        Inr (update_layout (add_trace go_Figure (go_Scatter xs ys ''lines'' (JStr nm) None))
               title ''Time'' ytitle))))
      else Inr (update_title fig nodata))"

definition steps_fig :: "string \<Rightarrow> response \<Rightarrow> error + figure" where
  "steps_fig selected_date response_steps =
     (if status_code response_steps \<noteq> 200 then Inl (Exception ''Steps request failed'')
      else
        bind_e (response_json response_steps) (\<lambda>steps_data.
        bind_e (intraday_series steps_data ''activities-steps-intraday'') (\<lambda>steps_series.
        line_fig steps_series ''Steps'' (''Steps on '' @ selected_date) ''Steps per Minute''
          ''No Steps Data Available'')))"

definition weight_fig :: "string \<Rightarrow> response \<Rightarrow> error + figure" where
  "weight_fig selected_date response_weight =
     (if status_code response_weight \<noteq> 200 then Inl (Exception ''Weight request failed'')
      else
        bind_e (response_json response_weight) (\<lambda>weight_data.
        bind_e (intraday_series weight_data ''weight-intraday'') (\<lambda>weight_series.
        line_fig weight_series ''Weight'' (''weight on '' @ selected_date) ''Weight''
          ''No Weight Data Available'')))"

definition spo2_fig :: "string \<Rightarrow> response \<Rightarrow> error + figure" where
  "spo2_fig selected_date response_spo2 =
     (if status_code response_spo2 \<noteq> 200 then Inl (Exception ''SPO2 request failed'')
      else
        bind_e (response_json response_spo2) (\<lambda>spo2_data.
        bind_e (intraday_series spo2_data ''spo2-intraday'') (\<lambda>spo2_series.
        line_fig spo2_series ''SPO2'' (''SPO2 on '' @ selected_date) ''spo2 per Minute''
          ''No SPO2 Data Available'')))"

subsection \<open>Sleep\<close>

text \<open>
  \<^verbatim>\<open>sleep_stages\<close> is a dict from the four stage names to minutes, \<^verbatim>\<open>sleep_series\<close>
  the list of (dateTime, level) pairs.
\<close>

type_synonym stages = "(string \<times> json) list"
type_synonym series = "(json \<times> json) list"

definition sleep_stages0 :: stages where
  "sleep_stages0 = [(''deep'', JInt 0), (''light'', JInt 0), (''rem'', JInt 0), (''wake'', JInt 0)]"

text \<open>\<^verbatim>\<open>d[k] = v\<close>.\<close>

fun dict_set :: "stages \<Rightarrow> string \<Rightarrow> json \<Rightarrow> stages" where
  "dict_set [] k v = [(k, v)]"
| "dict_set ((k', v') # d) k v = (if k' = k then (k, v) # d else (k', v') # dict_set d k v)"

text \<open>
  Lines 138 and 139, over the keys of \<^verbatim>\<open>sleep_stages\<close>: each stage's entry is assigned,
  not added to.
\<close>

fun set_stage_minutes :: "json \<Rightarrow> string list \<Rightarrow> stages \<Rightarrow> error + stages" where
  "set_stage_minutes summary [] st = Inr st"
| "set_stage_minutes summary (stage # rest) st =
     bind_e (py_get summary stage (JObj [])) (\<lambda>entry.
     bind_e (py_get entry ''minutes'' (JInt 0)) (\<lambda>minutes.
     set_stage_minutes summary rest (dict_set st stage minutes)))"

text \<open>Lines 142 and 143.\<close>

fun append_points :: "json list \<Rightarrow> series \<Rightarrow> error + series" where
  "append_points [] ser = Inr ser"
| "append_points (point # points) ser =
     bind_e (py_getitem point ''dateTime'') (\<lambda>t.
     bind_e (py_getitem point ''level'') (\<lambda>l.
     append_points points (ser @ [(t, l)])))"

text \<open>The body of the loop over the records, lines 136 to 143.\<close>

fun sleep_record :: "json \<Rightarrow> stages \<times> series \<Rightarrow> error + stages \<times> series" where
  "sleep_record record (sleep_stages, sleep_series) =
     bind_e (py_get record ''isMainSleep'' JNull) (\<lambda>is_main.
     if truthy is_main then
       bind_e (py_get record ''levels'' (JObj [])) (\<lambda>levels.
       bind_e (py_get levels ''summary'' (JObj [])) (\<lambda>summary.
       bind_e (set_stage_minutes summary (map fst sleep_stages) sleep_stages) (\<lambda>sleep_stages'.
       bind_e (py_get record ''levels'' (JObj [])) (\<lambda>levels'.
       bind_e (py_get levels' ''data'' (JArr [])) (\<lambda>data.
       bind_e (py_iter data) (\<lambda>points.
       bind_e (append_points points sleep_series) (\<lambda>sleep_series'.
       Inr (sleep_stages', sleep_series'))))))))
     else Inr (sleep_stages, sleep_series))"

fun sleep_records :: "json list \<Rightarrow> stages \<times> series \<Rightarrow> error + stages \<times> series" where
  "sleep_records [] acc = Inr acc"
| "sleep_records (record # records) acc =
     bind_e (sleep_record record acc) (\<lambda>acc'. sleep_records records acc')"

text \<open>Lines 132 to 143.\<close>

definition sleep_reduce :: "json \<Rightarrow> error + stages \<times> series" where
  "sleep_reduce sleep_data =
     bind_e (py_get sleep_data ''sleep'' (JArr [])) (\<lambda>sleep.
     bind_e (py_iter sleep) (\<lambda>records.
     sleep_records records (sleep_stages0, [])))"

definition stage_colors :: "(string \<times> string) list" where
  "stage_colors =
     [(''wake'', ''red''), (''light'', ''blue''), (''deep'', ''purple''), (''rem'', ''green''),
      (''asleep'', ''blue''), (''restless'', ''orange'')]"

text \<open>\<^verbatim>\<open>stage_colors.get(stage, "gray")\<close>: the keys are strs, so only a str can be found.\<close>

fun stage_color :: "json \<Rightarrow> string" where
  "stage_color (JStr s) = (case map_of stage_colors s of None \<Rightarrow> ''gray'' | Some c \<Rightarrow> c)"
| "stage_color _ = ''gray''"

text \<open>The trace of one stage, lines 158 to 165.\<close>

definition stage_trace :: "series \<Rightarrow> json \<Rightarrow> trace" where
  "stage_trace sleep_series stage =
     (let times = map fst (filter (\<lambda>ts. py_eq (snd ts) stage) sleep_series)
      in go_Scatter times (replicate (length times) stage) ''markers'' stage
           (Some (stage_color stage)))"

text \<open>Lines 145 to 174: one trace per distinct level, in the order the set gives them.\<close>

definition sleep_chart :: "(json list \<Rightarrow> json list) \<Rightarrow> string \<Rightarrow> series \<Rightarrow> error + figure" where
  "sleep_chart set_order selected_date sleep_series =
     (let fig_sleep = go_Figure in
      if sleep_series \<noteq> [] then
        bind_e (py_set_iter set_order (map snd sleep_series)) (\<lambda>stage_set.
        Inr (update_yaxis_type
               (update_layout
                  (foldl (\<lambda>fig stage. add_trace fig (stage_trace sleep_series stage))
                     fig_sleep stage_set)
                  (''Sleep Stages on '' @ selected_date) ''Time'' ''Stage'')
               ''category''))
      else Inr (update_title fig_sleep ''No Sleep Data Available''))"

text \<open>The per-stage minutes are computed and then dropped: the chart is built from the series.\<close>

definition sleep_fig :: "(json list \<Rightarrow> json list) \<Rightarrow> string \<Rightarrow> response \<Rightarrow> error + figure" where
  "sleep_fig set_order selected_date response_sleep =
     (if status_code response_sleep \<noteq> 200 then Inl (Exception ''Sleep data request failed'')
      else
        bind_e (response_json response_sleep) (\<lambda>sleep_data.
        bind_e (sleep_reduce sleep_data) (\<lambda>reduced.
        sleep_chart set_order selected_date (snd reduced))))"

subsection \<open>Activity minutes\<close>

definition activity_labels :: "json list" where
  "activity_labels = [JStr ''Sedentary'', JStr ''Light'', JStr ''Moderate'', JStr ''Vigorous'']"

text \<open>
  Lines 178 to 200. As for the heart rate, \<^verbatim>\<open>fig_activity\<close> is assigned in the branch
  of a truthy summary only, and read in the other.
\<close>

definition activity_fig :: "string \<Rightarrow> response \<Rightarrow> error + figure" where
  "activity_fig selected_date response_activity =
     (if status_code response_activity \<noteq> 200 then Inl (Exception ''Activity request failed'')
      else
        bind_e (response_json response_activity) (\<lambda>activity_data.
        bind_e (py_get activity_data ''summary'' (JObj [])) (\<lambda>summary.
        if truthy summary then
          bind_e (py_get summary ''sedentaryMinutes'' (JInt 0)) (\<lambda>sedentary.
          bind_e (py_get summary ''lightlyActiveMinutes'' (JInt 0)) (\<lambda>lightly.
          bind_e (py_get summary ''moderatelyActiveMinutes'' (JInt 0)) (\<lambda>moderately.
          bind_e (py_get summary ''veryActiveMinutes'' (JInt 0)) (\<lambda>very.
          Inr (update_layout
                 (add_trace go_Figure
                    (go_Bar activity_labels [sedentary, lightly, moderately, very] ''green''))
                 (''Activity Minutes on '' @ selected_date) ''Activity Type'' ''Minutes'')))))
        else
          bind_e (read_local ''fig_activity'' None) (\<lambda>fig_activity.
          Inr (update_title fig_activity ''No Activity Data Available'')))))"

subsection \<open>The callback\<close>

text \<open>
  The handler's effects are its requests. A computation takes the requests issued so far
  and gives its result, a value or an exception, with the requests issued by its end.
\<close>

type_synonym 'a io = "request list \<Rightarrow> (error + 'a) \<times> request list"

definition return_io :: "'a \<Rightarrow> 'a io" where
  "return_io v = (\<lambda>calls. (Inr v, calls))"

definition bind_io :: "'a io \<Rightarrow> ('a \<Rightarrow> 'b io) \<Rightarrow> 'b io" where
  "bind_io m f =
     (\<lambda>calls. case m calls of (Inl e, calls') \<Rightarrow> (Inl e, calls') | (Inr v, calls') \<Rightarrow> f v calls')"

definition requests_get :: "api \<Rightarrow> string \<Rightarrow> headers \<Rightarrow> response io" where
  "requests_get ext url hs = (\<lambda>calls. (ext url hs, calls @ [(url, hs)]))"

text \<open>One metric: the request, then the metric's code on the response.\<close>

definition fetch :: "api \<Rightarrow> string \<Rightarrow> headers \<Rightarrow> (response \<Rightarrow> error + 'a) \<Rightarrow> 'a io" where
  "fetch ext url hs build =
     bind_io (requests_get ext url hs) (\<lambda>resp calls. (build resp, calls))"

definition base_url :: string where
  "base_url = ''https://api.fitbit.com/1/user/-''"

definition url_heart :: "string \<Rightarrow> string" where
  "url_heart selected_date = base_url @ ''/activities/heart/date/'' @ selected_date @ ''/1d/1min.json''"

definition url_steps :: "string \<Rightarrow> string" where
  "url_steps selected_date = base_url @ ''/activities/steps/date/'' @ selected_date @ ''/1d/1min.json''"

definition url_weight :: "string \<Rightarrow> string" where
  "url_weight selected_date = base_url @ ''/body/log/weight/date/'' @ selected_date @ ''.json''"

definition url_activity :: "string \<Rightarrow> string" where
  "url_activity selected_date = base_url @ ''/activities/date/'' @ selected_date @ ''.json''"

definition url_spo2 :: "string \<Rightarrow> string" where
  "url_spo2 selected_date = base_url @ ''/spo2/date/'' @ selected_date @ ''.json''"

definition url_sleep :: "string \<Rightarrow> string" where
  "url_sleep selected_date =
     ''https://api.fitbit.com/1.2/user/-/sleep/date/'' @ selected_date @ ''.json''"

definition auth_headers :: "string \<Rightarrow> headers" where
  "auth_headers token = [(''Authorization'', ''Bearer '' @ token)]"

text \<open>
  What the callback returns: the seven values of line 287, or the two of lines 72 and 291.
\<close>

datatype callback_return =
    Tuple7 figure figure figure figure figure figure bool
  | Tuple2 figure bool

text \<open>The body of the \<^verbatim>\<open>try\<close>, lines 87 to 287.\<close>

definition try_body :: "api \<Rightarrow> (json list \<Rightarrow> json list) \<Rightarrow> string \<Rightarrow> string \<Rightarrow> callback_return io" where
  "try_body ext set_order token selected_date =
     (let headers = auth_headers token in
      bind_io (fetch ext (url_heart selected_date) headers (heart_fig selected_date)) (\<lambda>fig_hr.
      bind_io (fetch ext (url_steps selected_date) headers (steps_fig selected_date)) (\<lambda>fig_steps.
      bind_io (fetch ext (url_sleep selected_date) headers (sleep_fig set_order selected_date)) (\<lambda>fig_sleep.
      bind_io (fetch ext (url_activity selected_date) headers (activity_fig selected_date)) (\<lambda>fig_activity.
      bind_io (fetch ext (url_weight selected_date) headers (weight_fig selected_date)) (\<lambda>fig_weight.
      bind_io (fetch ext (url_spo2 selected_date) headers (spo2_fig selected_date)) (\<lambda>fig_spo2.
      return_io (Tuple7 fig_hr fig_steps fig_weight fig_spo2 fig_activity fig_sleep False))))))))"

text \<open>
  A run of the callback: what it returns, the requests it issued in order, and what the
  \<^verbatim>\<open>except\<close> clause printed.
\<close>

record outcome =
  returned :: callback_return
  requested :: "request list"
  printed :: "error option"

text \<open>\<^verbatim>\<open>not v\<close> for a str or \<^verbatim>\<open>None\<close>.\<close>

definition absent :: "string option \<Rightarrow> bool" where
  "absent v = (case v of None \<Rightarrow> True | Some s \<Rightarrow> s = [])"

definition fetch_fitbit_data ::
  "api \<Rightarrow> (json list \<Rightarrow> json list) \<Rightarrow> int \<Rightarrow> string option \<Rightarrow> string option \<Rightarrow> outcome" where
  "fetch_fitbit_data ext set_order n_clicks token selected_date =
     (case (token, selected_date) of
        (Some tok, Some d) \<Rightarrow>
          if absent token \<or> absent selected_date then
            \<lparr>returned = Tuple2 go_Figure True, requested = [], printed = None\<rparr>
          else
            (case try_body ext set_order tok d [] of
               (Inr ret, calls) \<Rightarrow> \<lparr>returned = ret, requested = calls, printed = None\<rparr>
             | (Inl e, calls) \<Rightarrow>
                 \<lparr>returned = Tuple2 go_Figure True, requested = calls, printed = Some e\<rparr>)
      | _ \<Rightarrow> \<lparr>returned = Tuple2 go_Figure True, requested = [], printed = None\<rparr>)"

section \<open>The logging endpoint (main.py)\<close>

subsection \<open>Python's rendering of a value as text\<close>










subsection \<open>The handler\<close>





section \<open>Notions the properties are stated with\<close>

subsection \<open>The six requests\<close>

text \<open>The requests of the pipeline in the order of the source, lines 88, 108, 127, 177, 203, 222.\<close>

definition all_requests :: "string \<Rightarrow> string \<Rightarrow> request list" where
  "all_requests token selected_date =
     map (\<lambda>url. (url, auth_headers token))
       [url_heart selected_date, url_steps selected_date, url_sleep selected_date,
        url_activity selected_date, url_weight selected_date, url_spo2 selected_date]"

text \<open>The request came back, with status 200.\<close>

definition returned_200 :: "api \<Rightarrow> request \<Rightarrow> bool" where
  "returned_200 ext q =
     (case ext (fst q) (snd q) of Inl e \<Rightarrow> False | Inr r \<Rightarrow> status_code r = 200)"

subsection \<open>Responses to run the pipeline on\<close>

definition ok :: "json \<Rightarrow> error + response" where
  "ok j = Inr \<lparr>status_code = 200, body = Some j\<rparr>"

text \<open>An external API that answers the six requests of a date as given.\<close>

definition ex_api ::
  "string \<Rightarrow> error + response \<Rightarrow> error + response \<Rightarrow> error + response \<Rightarrow> error + response \<Rightarrow>
   error + response \<Rightarrow> error + response \<Rightarrow> api" where
  "ex_api d hr steps sleep activity weight spo2 url hs =
     (if url = url_heart d then hr
      else if url = url_steps d then steps
      else if url = url_sleep d then sleep
      else if url = url_activity d then activity
      else if url = url_weight d then weight
      else if url = url_spo2 d then spo2
      else Inl RequestException)"

definition dataset :: "string \<Rightarrow> json list \<Rightarrow> json" where
  "dataset key dps = JObj [(key, JObj [(''dataset'', JArr dps)])]"

definition ex_day :: string where
  "ex_day = ''2025-06-10''"

definition ex_hr :: "error + response" where
  "ex_hr = ok (dataset ''activities-heart-intraday''
     [JObj [(''time'', JStr ''00:00:00''), (''value'', JInt 60)]])"

definition ex_activity :: "error + response" where
  "ex_activity = ok (JObj [(''summary'', JObj [(''sedentaryMinutes'', JInt 600)])])"

text \<open>A body with none of the keys the pipeline looks for.\<close>

definition ex_none :: "error + response" where
  "ex_none = ok (JObj [])"

text \<open>A response with another status, and an empty JSON object as its body.\<close>

definition ex_status :: "int \<Rightarrow> error + response" where
  "ex_status n = Inr \<lparr>status_code = n, body = Some (JObj [])\<rparr>"

subsection \<open>Sleep responses of the documented shape\<close>

text \<open>
  A sleep session as the interface describes it: the main-sleep flag, the minutes per
  stage of \<^verbatim>\<open>levels.summary\<close>, and the (dateTime, level) points of \<^verbatim>\<open>levels.data\<close>.
\<close>

record session =
  main :: bool
  stage_minutes :: "(string \<times> int) list"
  points :: "(string \<times> string) list"

definition session_json :: "session \<Rightarrow> json" where
  "session_json s =
     JObj [(''isMainSleep'', JBool (main s)),
           (''levels'', JObj
              [(''summary'', JObj (map (\<lambda>(stage, m). (stage, JObj [(''minutes'', JInt m)]))
                                    (stage_minutes s))),
               (''data'', JArr (map (\<lambda>(t, l). JObj [(''dateTime'', JStr t), (''level'', JStr l)])
                                  (points s)))])]"

definition sleep_body :: "session list \<Rightarrow> json" where
  "sleep_body ss = JObj [(''sleep'', JArr (map session_json ss))]"

definition stage_names :: "string list" where
  "stage_names = [''deep'', ''light'', ''rem'', ''wake'']"

text \<open>The minutes a session's summary gives for a stage, 0 when it has none.\<close>

definition minutes_of :: "session \<Rightarrow> string \<Rightarrow> int" where
  "minutes_of s stage = (case map_of (stage_minutes s) stage of None \<Rightarrow> 0 | Some m \<Rightarrow> m)"

text \<open>The series of a session: its points as pairs.\<close>

definition session_series :: "session \<Rightarrow> series" where
  "session_series s = map (\<lambda>(t, l). (JStr t, JStr l)) (points s)"

text \<open>
  The reduction in the specification's words: over the main-sleep sessions, the per-stage
  minutes accumulated and the points flattened into one list.
\<close>

definition spec_total_minutes :: "session list \<Rightarrow> stages" where
  "spec_total_minutes ss =
     map (\<lambda>stage. (stage, JInt (sum_list (map (\<lambda>s. minutes_of s stage) (filter main ss)))))
       stage_names"

definition spec_sleep_series :: "session list \<Rightarrow> series" where
  "spec_sleep_series ss = concat (map session_series (filter main ss))"

text \<open>The four stages with the minutes of one session.\<close>

definition session_stages :: "session \<Rightarrow> stages" where
  "session_stages s = map (\<lambda>stage. (stage, JInt (minutes_of s stage))) stage_names"

text \<open>
  What the loop leaves in \<^verbatim>\<open>sleep_stages\<close>: the minutes of the last main-sleep session,
  the initial zeros when there is none.
\<close>

definition last_main_minutes :: "session list \<Rightarrow> stages" where
  "last_main_minutes ss =
     (case rev (filter main ss) of [] \<Rightarrow> sleep_stages0 | s # earlier \<Rightarrow> session_stages s)"

definition ex_night :: session where
  "ex_night = \<lparr>main = True, stage_minutes = [(''deep'', 10), (''light'', 200)],
     points = [(''2025-06-10T00:10:00'', ''light''), (''2025-06-10T01:00:00'', ''deep'')]\<rparr>"

definition ex_nap :: session where
  "ex_nap = \<lparr>main = False, stage_minutes = [(''deep'', 5), (''wake'', 3)],
     points = [(''2025-06-10T14:00:00'', ''wake'')]\<rparr>"

definition ex_second_night :: session where
  "ex_second_night = \<lparr>main = True, stage_minutes = [(''deep'', 20)],
     points = [(''2025-06-10T23:00:00'', ''rem'')]\<rparr>"

subsection \<open>Sleep responses that differ in their summaries only\<close>

fun is_obj :: "json \<Rightarrow> bool" where
  "is_obj (JObj kvs) = True"
| "is_obj _ = False"

text \<open>A \<^verbatim>\<open>levels\<close> object without its summary, a record and a sleep response without theirs.\<close>

fun without_summary :: "json \<Rightarrow> json" where
  "without_summary (JObj lv) = JObj (filter (\<lambda>kv. fst kv \<noteq> ''summary'') lv)"
| "without_summary v = v"

fun strip_record :: "json \<Rightarrow> json" where
  "strip_record (JObj kvs) =
     JObj (map (\<lambda>(k, v). (k, if k = ''levels'' then without_summary v else v)) kvs)"
| "strip_record v = v"

fun strip_records :: "json \<Rightarrow> json" where
  "strip_records (JArr records) = JArr (map strip_record records)"
| "strip_records v = v"

fun strip_summaries :: "json \<Rightarrow> json" where
  "strip_summaries (JObj kvs) =
     JObj (map (\<lambda>(k, v). (k, if k = ''sleep'' then strip_records v else v)) kvs)"
| "strip_summaries v = v"

text \<open>
  A summary the loop of lines 138 and 139 runs through: an object whose entries for the
  four stages, where it has them, are objects.
\<close>

fun summary_ok :: "json \<Rightarrow> bool" where
  "summary_ok (JObj kvs) =
     list_all (\<lambda>stage. case map_of kvs stage of None \<Rightarrow> True | Some entry \<Rightarrow> is_obj entry)
       stage_names"
| "summary_ok _ = False"

text \<open>The summaries the loop reads are those of the main-sleep records with a \<^verbatim>\<open>levels\<close> object.\<close>

fun record_summary_ok :: "json \<Rightarrow> bool" where
  "record_summary_ok (JObj kvs) =
     (if truthy (case map_of kvs ''isMainSleep'' of None \<Rightarrow> JNull | Some v \<Rightarrow> v) then
        (case map_of kvs ''levels'' of
           Some (JObj lv) \<Rightarrow>
             (case map_of lv ''summary'' of None \<Rightarrow> True | Some summary \<Rightarrow> summary_ok summary)
         | _ \<Rightarrow> True)
      else True)"
| "record_summary_ok _ = True"

fun summaries_ok :: "json \<Rightarrow> bool" where
  "summaries_ok (JObj kvs) =
     (case map_of kvs ''sleep'' of
        Some (JArr records) \<Rightarrow> list_all record_summary_ok records
      | _ \<Rightarrow> True)"
| "summaries_ok _ = True"

text \<open>
  Two results of the sleep loop agree on all that the chart is built from: the same
  exception, or the same series (and the four stages as keys on both sides).
\<close>

definition same_series ::
  "error + stages \<times> series \<Rightarrow> error + stages \<times> series \<Rightarrow> bool" where
  "same_series a b =
     (case (a, b) of
        (Inl e, Inl e') \<Rightarrow> e = e'
      | (Inr (st, ser), Inr (st', ser')) \<Rightarrow>
          ser = ser' \<and> map fst st = stage_names \<and> map fst st' = stage_names
      | _ \<Rightarrow> False)"

text \<open>Two sleep bodies with one main-sleep record each, the same but for the summary.\<close>

definition ex_sleep_with :: "json \<Rightarrow> json" where
  "ex_sleep_with summary =
     JObj [(''sleep'', JArr [JObj [(''isMainSleep'', JBool True),
       (''levels'', JObj [(''summary'', summary),
          (''data'', JArr [JObj [(''dateTime'', JStr ''2025-06-10T00:10:00''),
                                 (''level'', JStr ''deep'')]])])]])]"

subsection \<open>Outputs that differ in the order of the traces only\<close>

text \<open>Two figures with the same traces, in some order, and the same layout.\<close>

definition same_but_order :: "figure \<Rightarrow> figure \<Rightarrow> bool" where
  "same_but_order f f' =
     (mset (fig_data f) = mset (fig_data f') \<and> f\<lparr>fig_data := []\<rparr> = f'\<lparr>fig_data := []\<rparr>)"

text \<open>Two returned values that are the same but for the order of the sleep chart's traces.\<close>

fun same_but_sleep_order :: "callback_return \<Rightarrow> callback_return \<Rightarrow> bool" where
  "same_but_sleep_order (Tuple7 hr steps weight spo2 activity sleep flag)
       (Tuple7 hr' steps' weight' spo2' activity' sleep' flag') =
     (hr = hr' \<and> steps = steps' \<and> weight = weight' \<and> spo2 = spo2' \<and> activity = activity' \<and>
      same_but_order sleep sleep' \<and> flag = flag')"
| "same_but_sleep_order (Tuple2 f flag) (Tuple2 f' flag') = (f = f' \<and> flag = flag')"
| "same_but_sleep_order _ _ = False"

subsection \<open>Log lines\<close>




section \<open>Properties\<close>

subsection \<open>Running the pipeline\<close>

lemma bind_e_simps [simp]:
  "bind_e (Inl e) f = Inl e"
  "bind_e (Inr v) f = f v"
  by (simp_all add: bind_e_def)

lemma bind_e_Inr_iff: "bind_e m f = Inr v \<longleftrightarrow> (\<exists>w. m = Inr w \<and> f w = Inr v)"
  by (cases m) simp_all

lemma fetch_run: "fetch ext url hs build calls = (bind_e (ext url hs) build, calls @ [(url, hs)])"
  by (simp add: fetch_def bind_io_def requests_get_def bind_e_def split: sum.splits)

lemma bind_io_fetch:
  "bind_io (fetch ext url hs build) k calls =
     (case bind_e (ext url hs) build of
        Inl e \<Rightarrow> (Inl e, calls @ [(url, hs)])
      | Inr v \<Rightarrow> k v (calls @ [(url, hs)]))"
  by (simp add: bind_io_def fetch_run split: sum.splits)

lemma urls_distinct:
  "distinct [url_heart d, url_steps d, url_sleep d, url_activity d, url_weight d, url_spo2 d]"
  by (simp add: url_heart_def url_steps_def url_sleep_def url_activity_def url_weight_def
      url_spo2_def base_url_def)

lemma ex_api_simps:
  "ex_api d a b c e f g (url_heart d) hs = a"
  "ex_api d a b c e f g (url_steps d) hs = b"
  "ex_api d a b c e f g (url_sleep d) hs = c"
  "ex_api d a b c e f g (url_activity d) hs = e"
  "ex_api d a b c e f g (url_weight d) hs = f"
  "ex_api d a b c e f g (url_spo2 d) hs = g"
  using urls_distinct [of d] by (auto simp: ex_api_def)

text \<open>Every metric's code starts with the status check.\<close>

lemma heart_fig_200: "heart_fig d r = Inr f \<Longrightarrow> status_code r = 200"
  by (simp add: heart_fig_def split: if_splits)

lemma steps_fig_200: "steps_fig d r = Inr f \<Longrightarrow> status_code r = 200"
  by (simp add: steps_fig_def split: if_splits)

lemma sleep_fig_200: "sleep_fig so d r = Inr f \<Longrightarrow> status_code r = 200"
  by (simp add: sleep_fig_def split: if_splits)

lemma activity_fig_200: "activity_fig d r = Inr f \<Longrightarrow> status_code r = 200"
  by (simp add: activity_fig_def split: if_splits)

lemma weight_fig_200: "weight_fig d r = Inr f \<Longrightarrow> status_code r = 200"
  by (simp add: weight_fig_def split: if_splits)

lemma spo2_fig_200: "spo2_fig d r = Inr f \<Longrightarrow> status_code r = 200"
  by (simp add: spo2_fig_def split: if_splits)


lemma ex_day_nonempty: "ex_day \<noteq> []"
  by (simp add: ex_day_def)

text \<open>The definitions a run on given responses unfolds.\<close>

lemmas run_defs =
  fetch_fitbit_data_def absent_def try_body_def bind_io_fetch return_io_def Let_def
  ex_api_simps ex_day_nonempty auth_headers_def ok_def ex_status_def dataset_def ex_hr_def ex_activity_def ex_none_def
  heart_fig_def steps_fig_def weight_fig_def spo2_fig_def activity_fig_def sleep_fig_def
  intraday_series_def line_fig_def sleep_reduce_def sleep_chart_def response_json_def
  read_local_def

subsection \<open>Missing input\<close>



subsection \<open>The order of the requests\<close>



subsection \<open>A request that fails\<close>

text \<open>
  C1. The sleep request comes back with status 401 and the five others would succeed:
  the callback stops after the third request and returns two values, one empty figure and
  the flag \<open>True\<close>, where the callback is declared with seven outputs and line 287
  returns seven.
\<close>

theorem failed_request_returns_two_values:
  "fetch_fitbit_data (ex_api ex_day ex_hr ex_none (ex_status 401) ex_activity ex_none ex_none)
     id 1 (Some ''tok'') (Some ex_day) =
     \<lparr>returned = Tuple2 go_Figure True,
      requested = take 3 (all_requests ''tok'' ex_day),
      printed = Some (Exception ''Sleep data request failed'')\<rparr>"
  by (simp add: run_defs all_requests_def)

text \<open>
  In general: when any of the six requests does not come back with status 200, whatever
  the other five would give, the callback returns those two values and no chart of a
  metric already fetched.
\<close>

lemma any_failed_request_fails:
  assumes "\<exists>q \<in> set (all_requests token d). \<not> returned_200 ext q"
  shows "returned (fetch_fitbit_data ext set_order n_clicks (Some token) (Some d)) =
           Tuple2 go_Figure True"
proof (cases "absent (Some token) \<or> absent (Some d)")
  case True
  then show ?thesis by (simp add: fetch_fitbit_data_def)
next
  case False
  have "\<exists>e calls. try_body ext set_order token d [] = (Inl e, calls)"
    using assms
    by (auto simp: try_body_def bind_io_fetch return_io_def all_requests_def Let_def
        returned_200_def bind_e_Inr_iff
        dest!: heart_fig_200 steps_fig_200 sleep_fig_200 activity_fig_200 weight_fig_200
          spo2_fig_200
        split: sum.splits)
  with False show ?thesis by (auto simp: fetch_fitbit_data_def)
qed

subsection \<open>Empty and absent series\<close>

text \<open>
  C2. The heart rate response has status 200 and an empty dataset, and the five others
  would succeed: line 105 reads \<^verbatim>\<open>fig_hr\<close>, which nothing has assigned, and the
  callback returns the failure instead of a chart titled "No Heart Rate Data Available".
\<close>

theorem empty_heart_series_fails:
  "fetch_fitbit_data
     (ex_api ex_day (ok (dataset ''activities-heart-intraday'' [])) ex_none ex_none ex_activity
        ex_none ex_none)
     id 1 (Some ''tok'') (Some ex_day) =
     \<lparr>returned = Tuple2 go_Figure True,
      requested = take 1 (all_requests ''tok'' ex_day),
      printed = Some (UnboundLocalError ''fig_hr'')\<rparr>"
  by (simp add: run_defs all_requests_def)

text \<open>No response at all gives a heart rate or an activity chart without a trace.\<close>

lemma heart_fig_has_trace: "heart_fig d r = Inr f \<Longrightarrow> fig_data f \<noteq> []"
  by (auto simp: heart_fig_def bind_e_Inr_iff read_local_def update_layout_def add_trace_def
      split: if_splits)

lemma activity_fig_has_trace: "activity_fig d r = Inr f \<Longrightarrow> fig_data f \<noteq> []"
  by (auto simp: activity_fig_def bind_e_Inr_iff read_local_def update_layout_def add_trace_def
      split: if_splits)

text \<open>
  C10. For steps, weight and blood oxygen, a response with status 200 whose body is an
  object without the metric's top-level key gives the chart with the "no data" title and
  no trace, and nothing is raised.
\<close>

theorem missing_key_is_no_data:
  "(map_of kvs ''activities-steps-intraday'' = None \<longrightarrow>
      steps_fig d \<lparr>status_code = 200, body = Some (JObj kvs)\<rparr> =
        Inr \<lparr>fig_data = [], layout_title = Some ''No Steps Data Available'',
              layout_xaxis_title = None, layout_yaxis_title = None, layout_yaxis_type = None\<rparr>) \<and>
   (map_of kvs ''weight-intraday'' = None \<longrightarrow>
      weight_fig d \<lparr>status_code = 200, body = Some (JObj kvs)\<rparr> =
        Inr \<lparr>fig_data = [], layout_title = Some ''No Weight Data Available'',
              layout_xaxis_title = None, layout_yaxis_title = None, layout_yaxis_type = None\<rparr>) \<and>
   (map_of kvs ''spo2-intraday'' = None \<longrightarrow>
      spo2_fig d \<lparr>status_code = 200, body = Some (JObj kvs)\<rparr> =
        Inr \<lparr>fig_data = [], layout_title = Some ''No SPO2 Data Available'',
              layout_xaxis_title = None, layout_yaxis_title = None, layout_yaxis_type = None\<rparr>)"
  by (simp add: steps_fig_def weight_fig_def spo2_fig_def response_json_def intraday_series_def
      line_fig_def update_title_def go_Figure_def map_of_eq_None_iff)

theorem missing_key_is_no_data_witness:
  "map_of [(''user'', JStr ''x'')] ''activities-steps-intraday'' = None \<and>
   steps_fig ex_day \<lparr>status_code = 200, body = Some (JObj [(''user'', JStr ''x'')])\<rparr> =
     Inr \<lparr>fig_data = [], layout_title = Some ''No Steps Data Available'',
           layout_xaxis_title = None, layout_yaxis_title = None, layout_yaxis_type = None\<rparr> \<and>
   map_of [(''user'', JStr ''x'')] ''weight-intraday'' = None \<and>
   weight_fig ex_day \<lparr>status_code = 200, body = Some (JObj [(''user'', JStr ''x'')])\<rparr> =
     Inr \<lparr>fig_data = [], layout_title = Some ''No Weight Data Available'',
           layout_xaxis_title = None, layout_yaxis_title = None, layout_yaxis_type = None\<rparr> \<and>
   map_of [(''user'', JStr ''x'')] ''spo2-intraday'' = None \<and>
   spo2_fig ex_day \<lparr>status_code = 200, body = Some (JObj [(''user'', JStr ''x'')])\<rparr> =
     Inr \<lparr>fig_data = [], layout_title = Some ''No SPO2 Data Available'',
           layout_xaxis_title = None, layout_yaxis_title = None, layout_yaxis_type = None\<rparr>"
  using missing_key_is_no_data [of "[(''user'', JStr ''x'')]" ex_day] by simp

subsection \<open>Activity minutes\<close>

text \<open>
  C5, as amended. When the activity response's summary is a non-empty object, the bar
  chart has the four categories Sedentary, Light, Moderate, Vigorous in this order, and
  the value of each is the field's, 0 for a field the summary does not have.
\<close>

theorem activity_missing_fields_are_zero:
  "map_of obj ''summary'' = Some (JObj kvs) \<Longrightarrow> kvs \<noteq> [] \<Longrightarrow>
   activity_fig d \<lparr>status_code = 200, body = Some (JObj obj)\<rparr> =
     Inr \<lparr>fig_data =
            [\<lparr>tr_type = Bar,
              tr_x = [JStr ''Sedentary'', JStr ''Light'', JStr ''Moderate'', JStr ''Vigorous''],
              tr_y = map (\<lambda>k. case map_of kvs k of None \<Rightarrow> JInt 0 | Some v \<Rightarrow> v)
                       [''sedentaryMinutes'', ''lightlyActiveMinutes'',
                        ''moderatelyActiveMinutes'', ''veryActiveMinutes''],
              tr_mode = None, tr_name = None, tr_marker_color = Some ''green''\<rparr>],
           layout_title = Some (''Activity Minutes on '' @ d),
           layout_xaxis_title = Some ''Activity Type'',
           layout_yaxis_title = Some ''Minutes'',
           layout_yaxis_type = None\<rparr>"
  by (simp add: activity_fig_def response_json_def update_layout_def add_trace_def go_Bar_def
      go_Figure_def activity_labels_def)

theorem activity_missing_fields_are_zero_witness:
  "activity_fig ex_day
     \<lparr>status_code = 200,
      body = Some (JObj [(''summary'', JObj [(''sedentaryMinutes'', JInt 600)])])\<rparr> =
     Inr \<lparr>fig_data =
            [\<lparr>tr_type = Bar,
              tr_x = [JStr ''Sedentary'', JStr ''Light'', JStr ''Moderate'', JStr ''Vigorous''],
              tr_y = [JInt 600, JInt 0, JInt 0, JInt 0],
              tr_mode = None, tr_name = None, tr_marker_color = Some ''green''\<rparr>],
           layout_title = Some (''Activity Minutes on '' @ ex_day),
           layout_xaxis_title = Some ''Activity Type'',
           layout_yaxis_title = Some ''Minutes'',
           layout_yaxis_type = None\<rparr>"
  using activity_missing_fields_are_zero
    [of "[(''summary'', JObj [(''sedentaryMinutes'', JInt 600)])]"
      "[(''sedentaryMinutes'', JInt 600)]" ex_day]
  by simp

text \<open>
  The claim as stated fails on a summary that is present and has none of the fields, the
  empty object: the test of line 186 sends it to the branch of line 200, and the callback
  returns the failure, not a bar chart of four zeros.
\<close>

theorem empty_summary_counterexample:
  "fetch_fitbit_data
     (ex_api ex_day ex_hr ex_none ex_none (ok (JObj [(''summary'', JObj [])])) ex_none ex_none)
     id 1 (Some ''tok'') (Some ex_day) =
     \<lparr>returned = Tuple2 go_Figure True,
      requested = take 4 (all_requests ''tok'' ex_day),
      printed = Some (UnboundLocalError ''fig_activity'')\<rparr>"
  by (simp add: run_defs all_requests_def update_title_def)

subsection \<open>The sleep reduction\<close>

lemma sleep_records_append:
  "sleep_records (rs @ rs') acc = bind_e (sleep_records rs acc) (sleep_records rs')"
  by (induction rs arbitrary: acc) (simp_all add: bind_e_def split: sum.splits)

lemma stages_of_keys:
  "map fst st = stage_names \<Longrightarrow>
   \<exists>a b c d. st = [(''deep'', a), (''light'', b), (''rem'', c), (''wake'', d)]"
  by (auto simp: stage_names_def map_eq_Cons_conv)

lemma set_stage_minutes_session:
  assumes "map fst st = stage_names"
  shows "set_stage_minutes
           (JObj (map (\<lambda>(stage, m). (stage, JObj [(''minutes'', JInt m)])) (stage_minutes s)))
           stage_names st = Inr (session_stages s)"
proof -
  from stages_of_keys [OF assms] obtain a b c d
    where st: "st = [(''deep'', a), (''light'', b), (''rem'', c), (''wake'', d)]" by blast
  show ?thesis
    by (simp add: st session_stages_def stage_names_def minutes_of_def map_of_map
        split: option.splits)
qed

lemma append_points_session:
  "append_points (map (\<lambda>(t, l). JObj [(''dateTime'', JStr t), (''level'', JStr l)]) pts) ser =
     Inr (ser @ map (\<lambda>(t, l). (JStr t, JStr l)) pts)"
  by (induction pts arbitrary: ser) (auto split: prod.splits)

lemma sleep_record_session:
  "map fst st = stage_names \<Longrightarrow>
   sleep_record (session_json s) (st, ser) =
     Inr (if main s then (session_stages s, ser @ session_series s) else (st, ser))"
  by (simp add: session_json_def set_stage_minutes_session append_points_session
      session_series_def)

lemma session_stages_keys: "map fst (session_stages s) = stage_names"
  by (simp add: session_stages_def comp_def)

lemma sleep_records_sessions:
  "map fst st = stage_names \<Longrightarrow>
   sleep_records (map session_json ss) (st, ser) =
     Inr (case rev (filter main ss) of [] \<Rightarrow> st | s # earlier \<Rightarrow> session_stages s,
          ser @ concat (map session_series (filter main ss)))"
proof (induction ss arbitrary: st ser)
  case Nil
  then show ?case by simp
next
  case (Cons s ss)
  show ?case
  proof (cases "main s")
    case True
    with Cons.prems Cons.IH [OF session_stages_keys, of s "ser @ session_series s"]
    show ?thesis
      by (cases "rev (filter main ss)") (simp_all add: sleep_record_session del: sleep_record.simps)
  next
    case False
    with Cons.prems Cons.IH [OF Cons.prems, of ser] show ?thesis
      by (simp add: sleep_record_session del: sleep_record.simps)
  qed
qed

text \<open>
  C3, as amended. On a sleep response of the documented shape, only the sessions flagged
  as main sleep contribute: the series is their points, flattened in the order of the
  response, and a session without the flag changes nothing. The per-stage minutes the
  loop keeps are those of the last main-sleep session (each one overwrites the one
  before; nothing is added up), and the chart is built from the series alone.
\<close>

theorem sleep_reduction_keeps_main_sessions:
  "sleep_reduce (sleep_body ss) = Inr (last_main_minutes ss, spec_sleep_series ss) \<and>
   sleep_fig set_order d \<lparr>status_code = 200, body = Some (sleep_body ss)\<rparr> =
     sleep_chart set_order d (spec_sleep_series ss)"
proof -
  have keys: "map fst sleep_stages0 = stage_names"
    by (simp add: sleep_stages0_def stage_names_def)
  have red: "sleep_reduce (sleep_body ss) = Inr (last_main_minutes ss, spec_sleep_series ss)"
    by (simp add: sleep_reduce_def sleep_body_def sleep_records_sessions [OF keys]
        last_main_minutes_def spec_sleep_series_def)
  then show ?thesis
    by (simp add: sleep_fig_def response_json_def)
qed

theorem sleep_reduction_keeps_main_sessions_witness:
  "sleep_reduce (sleep_body [ex_nap, ex_night]) =
     Inr ([(''deep'', JInt 10), (''light'', JInt 200), (''rem'', JInt 0), (''wake'', JInt 0)],
          [(JStr ''2025-06-10T00:10:00'', JStr ''light''),
           (JStr ''2025-06-10T01:00:00'', JStr ''deep'')]) \<and>
   sleep_reduce (sleep_body [ex_night]) = sleep_reduce (sleep_body [ex_nap, ex_night])"
  using sleep_reduction_keeps_main_sessions [of "[ex_nap, ex_night]" id ex_day]
    sleep_reduction_keeps_main_sessions [of "[ex_night]" id ex_day]
  by (simp add: last_main_minutes_def spec_sleep_series_def session_stages_def minutes_of_def
      session_series_def stage_names_def ex_night_def ex_nap_def)

text \<open>
  The claim as stated fails where it has the minutes accumulated across the main-sleep
  sessions: with two of them, 10 and 20 minutes deep, the loop keeps 20 and not 30, and
  the 200 minutes light of the first are overwritten by the 0 the second defaults to.
\<close>

theorem minutes_not_accumulated_counterexample:
  "sleep_reduce (sleep_body [ex_night, ex_second_night]) =
     Inr ([(''deep'', JInt 20), (''light'', JInt 0), (''rem'', JInt 0), (''wake'', JInt 0)],
          spec_sleep_series [ex_night, ex_second_night]) \<and>
   spec_total_minutes [ex_night, ex_second_night] =
     [(''deep'', JInt 30), (''light'', JInt 200), (''rem'', JInt 0), (''wake'', JInt 0)]"
  by (simp add: sleep_reduce_def sleep_body_def session_json_def sleep_stages0_def
      spec_sleep_series_def session_series_def spec_total_minutes_def minutes_of_def
      stage_names_def ex_night_def ex_second_night_def)

subsection \<open>The summaries and the output\<close>

lemma map_of_map_keyed:
  "map_of (map (\<lambda>(k, v). (k, f k v)) kvs) k = map_option (f k) (map_of kvs k)"
  by (induction kvs) auto

lemma map_of_filter_other:
  "k \<noteq> s \<Longrightarrow> map_of (filter (\<lambda>kv. fst kv \<noteq> s) kvs) k = map_of kvs k"
  by (induction kvs) auto

lemma without_summary_obj: "is_obj (without_summary v) = is_obj v"
  by (cases v) simp_all

lemma strip_record_obj: "is_obj (strip_record v) = is_obj v"
  by (cases v) simp_all

lemma without_summary_eq:
  assumes "without_summary l = without_summary l'"
  shows "(\<not> is_obj l \<and> l' = l) \<or>
         (\<exists>lv lv'. l = JObj lv \<and> l' = JObj lv' \<and>
            (\<forall>k. k \<noteq> ''summary'' \<longrightarrow> map_of lv k = map_of lv' k))"
proof (cases "is_obj l")
  case False
  moreover from assms False have "\<not> is_obj l'"
    by (metis without_summary_obj)
  ultimately show ?thesis using assms by (cases l; cases l') simp_all
next
  case True
  then obtain lv where l: "l = JObj lv" by (cases l) simp_all
  from assms True have "is_obj l'" by (metis without_summary_obj)
  then obtain lv' where l': "l' = JObj lv'" by (cases l') simp_all
  from assms l l'
  have "filter (\<lambda>kv. fst kv \<noteq> ''summary'') lv = filter (\<lambda>kv. fst kv \<noteq> ''summary'') lv'"
    by simp
  then have "\<forall>k. k \<noteq> ''summary'' \<longrightarrow> map_of lv k = map_of lv' k"
    by (metis map_of_filter_other)
  with l l' show ?thesis by blast
qed

lemma strip_record_eq:
  assumes "strip_record r = strip_record r'"
  shows "(\<not> is_obj r \<and> r' = r) \<or>
         (\<exists>kvs kvs'. r = JObj kvs \<and> r' = JObj kvs' \<and>
            (\<forall>k. k \<noteq> ''levels'' \<longrightarrow> map_of kvs k = map_of kvs' k) \<and>
            map_option without_summary (map_of kvs ''levels'') =
              map_option without_summary (map_of kvs' ''levels''))"
proof (cases "is_obj r")
  case False
  moreover from assms False have "\<not> is_obj r'"
    by (metis strip_record_obj)
  ultimately show ?thesis using assms by (cases r; cases r') simp_all
next
  case True
  then obtain kvs where r: "r = JObj kvs" by (cases r) simp_all
  from assms True have "is_obj r'" by (metis strip_record_obj)
  then obtain kvs' where r': "r' = JObj kvs'" by (cases r') simp_all
  let ?f = "\<lambda>k v. if k = ''levels'' then without_summary v else v"
  from assms r r'
  have eq: "map (\<lambda>(k, v). (k, ?f k v)) kvs = map (\<lambda>(k, v). (k, ?f k v)) kvs'"
    by simp
  have look: "map_option (?f k) (map_of kvs k) = map_option (?f k) (map_of kvs' k)" for k
    using arg_cong [OF eq, of "\<lambda>xs. map_of xs k"] by (simp only: map_of_map_keyed)
  have "\<forall>k. k \<noteq> ''levels'' \<longrightarrow> map_of kvs k = map_of kvs' k"
  proof (intro allI impI)
    fix k :: string
    assume "k \<noteq> ''levels''"
    with look [of k] show "map_of kvs k = map_of kvs' k"
      by (cases "map_of kvs k"; cases "map_of kvs' k") simp_all
  qed
  moreover from look [of "''levels''"]
  have "map_option without_summary (map_of kvs ''levels'') =
        map_option without_summary (map_of kvs' ''levels'')"
    by simp
  ultimately show ?thesis using r r' by blast
qed

lemma dict_set_keys: "k \<in> set (map fst st) \<Longrightarrow> map fst (dict_set st k v) = map fst st"
  by (induction st) force+

text \<open>On a summary of the right shape the loop over the stages raises nothing.\<close>

lemma set_stage_minutes_ok:
  "summary_ok summary \<Longrightarrow> set ks \<subseteq> set stage_names \<Longrightarrow> set ks \<subseteq> set (map fst st) \<Longrightarrow>
   \<exists>st'. set_stage_minutes summary ks st = Inr st' \<and> map fst st' = map fst st"
proof (induction ks arbitrary: st)
  case Nil
  then show ?case by simp
next
  case (Cons k ks)
  from Cons.prems(1) obtain kvs where summary: "summary = JObj kvs"
    by (cases summary) simp_all
  from Cons.prems(1,2) summary
  have entry: "case map_of kvs k of None \<Rightarrow> True | Some entry \<Rightarrow> is_obj entry"
    by (auto simp: list_all_iff)
  then obtain ekvs where e: "(case map_of kvs k of None \<Rightarrow> JObj [] | Some v \<Rightarrow> v) = JObj ekvs"
    by (cases "map_of kvs k") (auto elim: is_obj.elims)
  let ?st = "dict_set st k (case map_of ekvs ''minutes'' of None \<Rightarrow> JInt 0 | Some v \<Rightarrow> v)"
  from Cons.prems(3) have keys: "map fst ?st = map fst st"
    by (simp add: dict_set_keys)
  from Cons.prems keys have "set ks \<subseteq> set (map fst ?st)" by simp
  from Cons.IH [OF Cons.prems(1) _ this] Cons.prems(2) keys summary e
  show ?case by simp
qed

lemma sleep_record_obj:
  "sleep_record (JObj kvs) (st, ser) =
     (if truthy (case map_of kvs ''isMainSleep'' of None \<Rightarrow> JNull | Some v \<Rightarrow> v) then
        (case (case map_of kvs ''levels'' of None \<Rightarrow> JObj [] | Some v \<Rightarrow> v) of
           JObj lv \<Rightarrow>
             bind_e (set_stage_minutes
                       (case map_of lv ''summary'' of None \<Rightarrow> JObj [] | Some v \<Rightarrow> v)
                       (map fst st) st) (\<lambda>st'.
             bind_e (bind_e (py_iter (case map_of lv ''data'' of None \<Rightarrow> JArr [] | Some v \<Rightarrow> v))
                       (\<lambda>pts. append_points pts ser)) (\<lambda>ser'.
             Inr (st', ser')))
         | _ \<Rightarrow> Inl AttributeError)
      else Inr (st, ser))"
  by (simp add: bind_e_def split: json.splits sum.splits)

lemma record_summary_ok_summary:
  "record_summary_ok (JObj kvs) \<Longrightarrow>
   truthy (case map_of kvs ''isMainSleep'' of None \<Rightarrow> JNull | Some v \<Rightarrow> v) \<Longrightarrow>
   (case map_of kvs ''levels'' of None \<Rightarrow> JObj [] | Some v \<Rightarrow> v) = JObj lv \<Longrightarrow>
   summary_ok (case map_of lv ''summary'' of None \<Rightarrow> JObj [] | Some v \<Rightarrow> v)"
  by (auto simp: stage_names_def split: option.splits json.splits)

text \<open>
  One pass of the loop on two records that differ in the summary only: the same
  exception, or the same series.
\<close>

lemma sleep_record_same_series:
  assumes strip: "strip_record r = strip_record r'"
    and ok: "record_summary_ok r" "record_summary_ok r'"
    and keys: "map fst st = stage_names" "map fst st' = stage_names"
  shows "same_series (sleep_record r (st, ser)) (sleep_record r' (st', ser))"
proof -
  from strip_record_eq [OF strip] show ?thesis
  proof (elim disjE conjE exE)
    assume "\<not> is_obj r" "r' = r"
    then show ?thesis by (cases r) (simp_all add: same_series_def)
  next
    fix kvs kvs'
    assume r: "r = JObj kvs" and r': "r' = JObj kvs'"
      and other: "\<forall>k. k \<noteq> ''levels'' \<longrightarrow> map_of kvs k = map_of kvs' k"
      and levels: "map_option without_summary (map_of kvs ''levels'') =
                   map_option without_summary (map_of kvs' ''levels'')"
    let ?flag = "case map_of kvs ''isMainSleep'' of None \<Rightarrow> JNull | Some v \<Rightarrow> v"
    let ?l = "case map_of kvs ''levels'' of None \<Rightarrow> JObj [] | Some v \<Rightarrow> v"
    let ?l' = "case map_of kvs' ''levels'' of None \<Rightarrow> JObj [] | Some v \<Rightarrow> v"
    from other have flag: "map_of kvs' ''isMainSleep'' = map_of kvs ''isMainSleep''"
      by simp
    from levels have ws: "without_summary ?l = without_summary ?l'"
      by (cases "map_of kvs ''levels''"; cases "map_of kvs' ''levels''") simp_all
    show ?thesis
    proof (cases "truthy ?flag")
      case False
      with r r' flag keys show ?thesis
        by (simp add: sleep_record_obj same_series_def del: sleep_record.simps)
    next
      case True
      from without_summary_eq [OF ws] show ?thesis
      proof (elim disjE conjE exE)
        assume "\<not> is_obj ?l" "?l' = ?l"
        with r r' flag True show ?thesis
          by (cases ?l) (simp_all add: sleep_record_obj same_series_def del: sleep_record.simps)
      next
        fix lv lv'
        assume l: "?l = JObj lv" and l': "?l' = JObj lv'"
          and same: "\<forall>k. k \<noteq> ''summary'' \<longrightarrow> map_of lv k = map_of lv' k"
        from same have data: "map_of lv' ''data'' = map_of lv ''data''" by simp
        from ok(1) r True l
        have "summary_ok (case map_of lv ''summary'' of None \<Rightarrow> JObj [] | Some v \<Rightarrow> v)"
          by (simp add: record_summary_ok_summary del: record_summary_ok.simps)
        from set_stage_minutes_ok [OF this, of stage_names st] keys
        obtain st2 where st2:
          "set_stage_minutes (case map_of lv ''summary'' of None \<Rightarrow> JObj [] | Some v \<Rightarrow> v)
             stage_names st = Inr st2" "map fst st2 = stage_names"
          by auto
        from ok(2) r' True flag l'
        have "summary_ok (case map_of lv' ''summary'' of None \<Rightarrow> JObj [] | Some v \<Rightarrow> v)"
          by (simp add: record_summary_ok_summary del: record_summary_ok.simps)
        from set_stage_minutes_ok [OF this, of stage_names st'] keys
        obtain st2' where st2':
          "set_stage_minutes (case map_of lv' ''summary'' of None \<Rightarrow> JObj [] | Some v \<Rightarrow> v)
             stage_names st' = Inr st2'" "map fst st2' = stage_names"
          by auto
        from r r' flag True l l' data st2 st2' keys show ?thesis
          by (simp add: sleep_record_obj same_series_def bind_e_def del: sleep_record.simps
              split: sum.splits)
      qed
    qed
  qed
qed

lemma sleep_records_same_series:
  "list_all2 (\<lambda>r r'. strip_record r = strip_record r') rs rs' \<Longrightarrow>
   list_all record_summary_ok rs \<Longrightarrow> list_all record_summary_ok rs' \<Longrightarrow>
   map fst st = stage_names \<Longrightarrow> map fst st' = stage_names \<Longrightarrow>
   same_series (sleep_records rs (st, ser)) (sleep_records rs' (st', ser))"
proof (induction arbitrary: st st' ser rule: list_all2_induct)
  case Nil
  then show ?case by (simp add: same_series_def)
next
  case (Cons r rs r' rs')
  from Cons.prems have ok: "record_summary_ok r" "record_summary_ok r'"
    and oks: "list_all record_summary_ok rs" "list_all record_summary_ok rs'"
    by simp_all
  from sleep_record_same_series [OF Cons.hyps(1) ok Cons.prems(3,4), of ser]
  show ?case
  proof (cases "sleep_record r (st, ser)")
    case (Inl e)
    with \<open>same_series (sleep_record r (st, ser)) (sleep_record r' (st', ser))\<close>
    show ?thesis
      by (auto simp: same_series_def simp del: sleep_record.simps split: sum.splits)
  next
    case (Inr acc)
    obtain a ser1 where acc: "acc = (a, ser1)" by (cases acc)
    with Inr \<open>same_series (sleep_record r (st, ser)) (sleep_record r' (st', ser))\<close>
    obtain a' where r': "sleep_record r' (st', ser) = Inr (a', ser1)"
      and k: "map fst a = stage_names" "map fst a' = stage_names"
      by (auto simp: same_series_def simp del: sleep_record.simps split: sum.splits)
    from Cons.IH [OF oks k, of ser1] Inr acc r' show ?thesis
      by (simp del: sleep_record.simps)
  qed
qed

lemma same_series_results:
  "same_series a b \<Longrightarrow> bind_e a (\<lambda>red. g (snd red)) = bind_e b (\<lambda>red. g (snd red))"
  by (cases a; cases b) (auto simp: same_series_def)

lemma strip_records_eq:
  assumes "strip_records v = strip_records v'"
  shows "v' = v \<or>
         (\<exists>rs rs'. v = JArr rs \<and> v' = JArr rs' \<and>
            list_all2 (\<lambda>r r'. strip_record r = strip_record r') rs rs')"
proof (cases v)
  case (JArr rs)
  with assms obtain rs' where v': "v' = JArr rs'" by (cases v') simp_all
  from assms JArr v' have "map strip_record rs = map strip_record rs'" by simp
  then have "list_all2 (\<lambda>r r'. strip_record r = strip_record r') rs rs'"
    by (induction rs arbitrary: rs') auto
  with JArr v' show ?thesis by blast
qed (use assms in \<open>cases v'; simp\<close>)+

lemma strip_summaries_obj: "is_obj (strip_summaries v) = is_obj v"
  by (cases v) simp_all

lemma strip_summaries_eq:
  assumes "strip_summaries b = strip_summaries b'"
  shows "(\<not> is_obj b \<and> b' = b) \<or>
         (\<exists>kvs kvs'. b = JObj kvs \<and> b' = JObj kvs' \<and>
            map_option strip_records (map_of kvs ''sleep'') =
              map_option strip_records (map_of kvs' ''sleep''))"
proof (cases "is_obj b")
  case False
  moreover from assms False have "\<not> is_obj b'"
    by (metis strip_summaries_obj)
  ultimately show ?thesis using assms by (cases b; cases b') simp_all
next
  case True
  then obtain kvs where b: "b = JObj kvs" by (cases b) simp_all
  from assms True have "is_obj b'" by (metis strip_summaries_obj)
  then obtain kvs' where b': "b' = JObj kvs'" by (cases b') simp_all
  let ?f = "\<lambda>k v. if k = ''sleep'' then strip_records v else v"
  from assms b b'
  have eq: "map (\<lambda>(k, v). (k, ?f k v)) kvs = map (\<lambda>(k, v). (k, ?f k v)) kvs'"
    by simp
  have "map_option (?f ''sleep'') (map_of kvs ''sleep'') =
        map_option (?f ''sleep'') (map_of kvs' ''sleep'')"
    using arg_cong [OF eq, of "\<lambda>xs. map_of xs ''sleep''"] by (simp only: map_of_map_keyed)
  with b b' show ?thesis by simp
qed

lemma sleep_reduce_same_series:
  assumes strip: "strip_summaries b = strip_summaries b'"
    and ok: "summaries_ok b" "summaries_ok b'"
  shows "bind_e (sleep_reduce b) (\<lambda>red. g (snd red)) =
         bind_e (sleep_reduce b') (\<lambda>red. g (snd red))"
proof -
  have keys: "map fst sleep_stages0 = stage_names"
    by (simp add: sleep_stages0_def stage_names_def)
  from strip_summaries_eq [OF strip] show ?thesis
  proof (elim disjE conjE exE)
    assume "\<not> is_obj b" "b' = b"
    then show ?thesis by simp
  next
    fix kvs kvs'
    assume b: "b = JObj kvs" and b': "b' = JObj kvs'"
      and sleep: "map_option strip_records (map_of kvs ''sleep'') =
                  map_option strip_records (map_of kvs' ''sleep'')"
    let ?v = "case map_of kvs ''sleep'' of None \<Rightarrow> JArr [] | Some v \<Rightarrow> v"
    let ?v' = "case map_of kvs' ''sleep'' of None \<Rightarrow> JArr [] | Some v \<Rightarrow> v"
    from sleep have "strip_records ?v = strip_records ?v'"
      by (cases "map_of kvs ''sleep''"; cases "map_of kvs' ''sleep''") simp_all
    from strip_records_eq [OF this] show ?thesis
    proof (elim disjE conjE exE)
      assume "?v' = ?v"
      with b b' show ?thesis by (simp add: sleep_reduce_def)
    next
      fix rs rs'
      assume v: "?v = JArr rs" and v': "?v' = JArr rs'"
        and rel: "list_all2 (\<lambda>r r'. strip_record r = strip_record r') rs rs'"
      from ok(1) b v have ok1: "list_all record_summary_ok rs"
        by (cases "map_of kvs ''sleep''") simp_all
      from ok(2) b' v' have ok2: "list_all record_summary_ok rs'"
        by (cases "map_of kvs' ''sleep''") simp_all
      from sleep_records_same_series [OF rel ok1 ok2 keys keys, of "[]"]
      have "bind_e (sleep_records rs (sleep_stages0, [])) (\<lambda>red. g (snd red)) =
            bind_e (sleep_records rs' (sleep_stages0, [])) (\<lambda>red. g (snd red))"
        by (rule same_series_results)
      with b b' v v' show ?thesis by (simp add: sleep_reduce_def)
    qed
  qed
qed

lemma sleep_fig_same:
  assumes "status_code r' = status_code r" "body r = Some b" "body r' = Some b'"
    and "strip_summaries b = strip_summaries b'" "summaries_ok b" "summaries_ok b'"
  shows "sleep_fig set_order d r' = sleep_fig set_order d r"
  using assms(1-3) sleep_reduce_same_series [OF assms(4-6), of "sleep_chart set_order d"]
  by (simp add: sleep_fig_def response_json_def)

text \<open>
  C8, as amended. Two sleep responses that differ only in their \<^verbatim>\<open>levels.summary\<close>
  objects give the same run of the callback (what it returns, requests and prints),
  provided the summaries the loop reads have the shape it relies on: each is an object
  whose entries for deep, light, rem and wake, where present, are objects.
\<close>

theorem summaries_do_not_reach_output:
  assumes "\<forall>url hs. url \<noteq> url_sleep d \<longrightarrow> ext' url hs = ext url hs"
    and "ext (url_sleep d) (auth_headers token) = Inr r"
    and "ext' (url_sleep d) (auth_headers token) = Inr r'"
    and "status_code r' = status_code r" "body r = Some b" "body r' = Some b'"
    and "strip_summaries b = strip_summaries b'" "summaries_ok b" "summaries_ok b'"
  shows "fetch_fitbit_data ext' set_order n_clicks (Some token) (Some d) =
         fetch_fitbit_data ext set_order n_clicks (Some token) (Some d)"
proof -
  from urls_distinct [of d] assms(1)
  have other: "ext' (url_heart d) hs = ext (url_heart d) hs"
    "ext' (url_steps d) hs = ext (url_steps d) hs"
    "ext' (url_activity d) hs = ext (url_activity d) hs"
    "ext' (url_weight d) hs = ext (url_weight d) hs"
    "ext' (url_spo2 d) hs = ext (url_spo2 d) hs" for hs
    by auto
  have sleep: "bind_e (ext' (url_sleep d) (auth_headers token)) (sleep_fig set_order d) =
               bind_e (ext (url_sleep d) (auth_headers token)) (sleep_fig set_order d)"
    using assms(2,3) sleep_fig_same [OF assms(4-9)] by simp
  have fetch_other: "fetch ext' (url_heart d) hs build = fetch ext (url_heart d) hs build"
    "fetch ext' (url_steps d) hs build = fetch ext (url_steps d) hs build"
    "fetch ext' (url_activity d) hs build = fetch ext (url_activity d) hs build"
    "fetch ext' (url_weight d) hs build = fetch ext (url_weight d) hs build"
    "fetch ext' (url_spo2 d) hs build = fetch ext (url_spo2 d) hs build"
    for hs and build :: "response \<Rightarrow> error + figure"
    by (rule ext, simp add: fetch_run other)+
  have fetch_sleep:
    "fetch ext' (url_sleep d) (auth_headers token) (sleep_fig set_order d) =
     fetch ext (url_sleep d) (auth_headers token) (sleep_fig set_order d)"
    by (rule ext) (simp add: fetch_run sleep)
  have "try_body ext' set_order token d [] = try_body ext set_order token d []"
    by (simp add: try_body_def fetch_other fetch_sleep Let_def)
  then show ?thesis by (simp add: fetch_fitbit_data_def)
qed

theorem summaries_do_not_reach_output_witness:
  "strip_summaries (ex_sleep_with (JObj [(''deep'', JObj [(''minutes'', JInt 5)])])) =
   strip_summaries (ex_sleep_with (JObj [(''deep'', JObj [(''minutes'', JInt 50)]),
                                         (''wake'', JObj [])])) \<and>
   fetch_fitbit_data
     (ex_api ex_day ex_hr ex_none
        (ok (ex_sleep_with (JObj [(''deep'', JObj [(''minutes'', JInt 50)]), (''wake'', JObj [])])))
        ex_activity ex_none ex_none)
     id 1 (Some ''tok'') (Some ex_day) =
   fetch_fitbit_data
     (ex_api ex_day ex_hr ex_none
        (ok (ex_sleep_with (JObj [(''deep'', JObj [(''minutes'', JInt 5)])])))
        ex_activity ex_none ex_none)
     id 1 (Some ''tok'') (Some ex_day)"
proof -
  let ?a = "ex_sleep_with (JObj [(''deep'', JObj [(''minutes'', JInt 5)])])"
  let ?b = "ex_sleep_with (JObj [(''deep'', JObj [(''minutes'', JInt 50)]), (''wake'', JObj [])])"
  let ?ext = "ex_api ex_day ex_hr ex_none (ok ?a) ex_activity ex_none ex_none"
  let ?ext' = "ex_api ex_day ex_hr ex_none (ok ?b) ex_activity ex_none ex_none"
  have h1: "\<forall>url hs. url \<noteq> url_sleep ex_day \<longrightarrow> ?ext' url hs = ?ext url hs"
    by (simp add: ex_api_def)
  have h2: "?ext (url_sleep ex_day) (auth_headers ''tok'') =
            Inr \<lparr>status_code = 200, body = Some ?a\<rparr>"
    by (simp add: ex_api_simps ok_def)
  have h3: "?ext' (url_sleep ex_day) (auth_headers ''tok'') =
            Inr \<lparr>status_code = 200, body = Some ?b\<rparr>"
    by (simp add: ex_api_simps ok_def)
  have h7: "strip_summaries ?a = strip_summaries ?b"
    by (simp add: ex_sleep_with_def)
  have h8: "summaries_ok ?a"
    by (simp add: ex_sleep_with_def stage_names_def)
  have h9: "summaries_ok ?b"
    by (simp add: ex_sleep_with_def stage_names_def)
  from h7 summaries_do_not_reach_output [OF h1 h2 h3 _ _ _ h7 h8 h9, of id 1]
  show ?thesis by simp
qed

text \<open>
  The claim as stated fails on a summary of another shape. With "deep" a number instead
  of an object, line 139 calls \<^verbatim>\<open>get\<close> on an int: the AttributeError is caught and the
  callback returns the failure, where the same response with a well-formed summary gives
  the seven values.
\<close>

theorem summary_shape_counterexample:
  "strip_summaries (ex_sleep_with (JObj [(''deep'', JObj [(''minutes'', JInt 5)])])) =
   strip_summaries (ex_sleep_with (JObj [(''deep'', JInt 5)])) \<and>
   printed (fetch_fitbit_data
     (ex_api ex_day ex_hr ex_none
        (ok (ex_sleep_with (JObj [(''deep'', JObj [(''minutes'', JInt 5)])])))
        ex_activity ex_none ex_none)
     id 1 (Some ''tok'') (Some ex_day)) = None \<and>
   fetch_fitbit_data
     (ex_api ex_day ex_hr ex_none (ok (ex_sleep_with (JObj [(''deep'', JInt 5)])))
        ex_activity ex_none ex_none)
     id 1 (Some ''tok'') (Some ex_day) =
     \<lparr>returned = Tuple2 go_Figure True,
      requested = take 3 (all_requests ''tok'' ex_day),
      printed = Some AttributeError\<rparr>"
  by (simp add: run_defs all_requests_def ex_sleep_with_def sleep_stages0_def
      py_set_iter_def)

subsection \<open>The order of a set\<close>

lemma foldl_add_trace:
  "foldl (\<lambda>fig stage. add_trace fig (g stage)) f stages =
     f\<lparr>fig_data := fig_data f @ map g stages\<rparr>"
  by (induction stages arbitrary: f) (simp_all add: add_trace_def)

lemma sleep_chart_orders:
  assumes "valid_order so1" "valid_order so2"
  shows "(\<exists>e. sleep_chart so1 d ser = Inl e \<and> sleep_chart so2 d ser = Inl e) \<or>
         (\<exists>f1 f2. sleep_chart so1 d ser = Inr f1 \<and> sleep_chart so2 d ser = Inr f2 \<and>
            same_but_order f1 f2)"
proof -
  from assms have "mset (so1 vs) = mset (so2 vs)" for vs
    by (simp add: valid_order_def)
  then have perm: "mset (map g (so1 vs)) = mset (map g (so2 vs))" for vs and g :: "json \<Rightarrow> trace"
    by (metis mset_map)
  show ?thesis
  proof (cases "ser = [] \<or> None \<in> set (map hash_key (map snd ser))")
    case True
    then show ?thesis
      by (auto simp: sleep_chart_def py_set_iter_def same_but_order_def Let_def)
  next
    case False
    with perm [of "stage_trace ser" "dedup [] (map snd ser)"] show ?thesis
      by (simp add: sleep_chart_def py_set_iter_def foldl_add_trace same_but_order_def Let_def
          update_layout_def update_yaxis_type_def go_Figure_def)
  qed
qed

lemma sleep_stage_orders:
  assumes "valid_order so1" "valid_order so2"
  shows "(\<exists>e. bind_e x (sleep_fig so1 d) = Inl e \<and> bind_e x (sleep_fig so2 d) = Inl e) \<or>
         (\<exists>f1 f2. bind_e x (sleep_fig so1 d) = Inr f1 \<and> bind_e x (sleep_fig so2 d) = Inr f2 \<and>
            same_but_order f1 f2)"
proof (cases x)
  case (Inl e)
  then show ?thesis by simp
next
  case (Inr r)
  show ?thesis
  proof (cases "bind_e (response_json r) sleep_reduce")
    case (Inl e)
    with Inr show ?thesis
      by (cases "response_json r") (simp_all add: sleep_fig_def)
  next
    case red: (Inr reduced)
    with Inr sleep_chart_orders [OF assms, of d "snd reduced"] show ?thesis
      by (cases "response_json r") (auto simp: sleep_fig_def)
  qed
qed

text \<open>
  C7, as amended. The callback is a function of the token, the date, the external
  responses and the order in which the process iterates a set (line 157). Under two such
  orders it issues the same requests and prints the same; what it returns is the same
  but for the order of the traces of the sleep chart.
\<close>

theorem output_determined_up_to_set_order:
  assumes "valid_order so1" "valid_order so2"
  shows "requested (fetch_fitbit_data ext so1 n_clicks token selected_date) =
           requested (fetch_fitbit_data ext so2 n_clicks token selected_date) \<and>
         printed (fetch_fitbit_data ext so1 n_clicks token selected_date) =
           printed (fetch_fitbit_data ext so2 n_clicks token selected_date) \<and>
         same_but_sleep_order
           (returned (fetch_fitbit_data ext so1 n_clicks token selected_date))
           (returned (fetch_fitbit_data ext so2 n_clicks token selected_date))"
proof (cases "absent token \<or> absent selected_date")
  case True
  then show ?thesis
    by (auto simp: fetch_fitbit_data_def absent_def split: option.splits)
next
  case False
  then obtain tok d where td: "token = Some tok" "selected_date = Some d" "tok \<noteq> []" "d \<noteq> []"
    by (auto simp: absent_def split: option.splits)
  from sleep_stage_orders [OF assms, of "ext (url_sleep d) (auth_headers tok)" d]
  show ?thesis
  proof (elim disjE conjE exE)
    fix e
    assume "bind_e (ext (url_sleep d) (auth_headers tok)) (sleep_fig so1 d) = Inl e"
      "bind_e (ext (url_sleep d) (auth_headers tok)) (sleep_fig so2 d) = Inl e"
    with td show ?thesis
      by (simp add: fetch_fitbit_data_def absent_def try_body_def bind_io_fetch return_io_def
          Let_def split: sum.splits)
  next
    fix f1 f2
    assume "bind_e (ext (url_sleep d) (auth_headers tok)) (sleep_fig so1 d) = Inr f1"
      "bind_e (ext (url_sleep d) (auth_headers tok)) (sleep_fig so2 d) = Inr f2"
      "same_but_order f1 f2"
    with td show ?thesis
      by (simp add: fetch_fitbit_data_def absent_def try_body_def bind_io_fetch return_io_def
          Let_def split: sum.splits)
  qed
qed

lemma valid_order_id: "valid_order id"
  by (simp add: valid_order_def)

lemma valid_order_rev: "valid_order rev"
  by (simp add: valid_order_def)

theorem output_determined_up_to_set_order_witness:
  "valid_order id \<and> valid_order rev \<and>
   same_but_sleep_order
     (returned (fetch_fitbit_data
        (ex_api ex_day ex_hr ex_none (ok (sleep_body [ex_night])) ex_activity ex_none ex_none)
        id 1 (Some ''tok'') (Some ex_day)))
     (returned (fetch_fitbit_data
        (ex_api ex_day ex_hr ex_none (ok (sleep_body [ex_night])) ex_activity ex_none ex_none)
        rev 1 (Some ''tok'') (Some ex_day)))"
  using output_determined_up_to_set_order [OF valid_order_id valid_order_rev,
      of "ex_api ex_day ex_hr ex_none (ok (sleep_body [ex_night])) ex_activity ex_none ex_none"
        1 "Some ''tok''" "Some ex_day"]
    valid_order_id valid_order_rev
  by simp

text \<open>
  The claim as stated fails: the iteration order of the set of line 157 is hidden state.
  On a night with the levels light and deep, two orders of the set give two different
  sleep charts for the same token, date and responses.
\<close>

theorem set_order_counterexample:
  "valid_order id \<and> valid_order rev \<and>
   returned (fetch_fitbit_data
     (ex_api ex_day ex_hr ex_none (ok (sleep_body [ex_night])) ex_activity ex_none ex_none)
     id 1 (Some ''tok'') (Some ex_day)) \<noteq>
   returned (fetch_fitbit_data
     (ex_api ex_day ex_hr ex_none (ok (sleep_body [ex_night])) ex_activity ex_none ex_none)
     rev 1 (Some ''tok'') (Some ex_day))"
  by (simp add: valid_order_id valid_order_rev run_defs sleep_body_def session_json_def
      ex_night_def sleep_stages0_def py_set_iter_def stage_trace_def py_eq_def go_Scatter_def
      add_trace_def update_layout_def update_yaxis_type_def go_Figure_def)

subsection \<open>The logging endpoint\<close>













end
